theory Spec2Isabelle
  imports Complex_Main "HOL-Library.Multiset" "HOL-Library.Sublist"
begin

section \<open>JavaScript values\<close>

text \<open>
  A JavaScript number is a finite double, written as the rational it denotes, or NaN.
  Both zeros are \<open>Num 0\<close>. Infinities do not occur: every number below comes from JSON
  or from a constant of the source.
\<close>

datatype jsnum = Num rat | NaN

datatype jsval = JUndefined | JNull | JBool bool | JNumber jsnum | JString string | JObject

text \<open>The value \<open>!v\<close> negates: ToBoolean of the language.\<close>

fun truthy :: "jsval \<Rightarrow> bool" where
  "truthy JUndefined = False"
| "truthy JNull = False"
| "truthy (JBool b) = b"
| "truthy (JNumber (Num r)) = (r \<noteq> 0)"
| "truthy (JNumber NaN) = False"
| "truthy (JString s) = (s \<noteq> [])"
| "truthy JObject = True"

text \<open>\<open>typeof v === 'number'\<close>\<close>

fun is_number :: "jsval \<Rightarrow> bool" where
  "is_number (JNumber n) = True"
| "is_number v = False"

text \<open>The comparisons \<open><\<close> and \<open><=\<close> on numbers: false as soon as one side is NaN.\<close>

fun js_lt :: "jsnum \<Rightarrow> jsnum \<Rightarrow> bool" where
  "js_lt (Num a) (Num b) = (a < b)"
| "js_lt a b = False"

fun js_le :: "jsnum \<Rightarrow> jsnum \<Rightarrow> bool" where
  "js_le (Num a) (Num b) = (a \<le> b)"
| "js_le a b = False"

section \<open>Documents of the store\<close>

text \<open>
  Object ids are written as the strings that a template literal makes of them. A GeoJSON
  point keeps its \<open>coordinates\<close>; \<open>None\<close> stands for a value that an array pattern
  cannot destructure (\<open>undefined\<close> or \<open>null\<close>).
\<close>

type_synonym oid = string

record location =
  ltype :: string
  coordinates :: "jsval list option"

record history_entry =
  hstatus :: string
  timestamp :: int
  hlocation :: "location option"
  hnote :: string

text \<open>
  A reference field of a document: the field may be missing, hold \<open>null\<close>, or hold an id.
  The query \<open>{ $exists: false }\<close> tells the first two apart; a truthiness test does not.
\<close>

datatype 'a ref = Absent | Null | Ref 'a

fun assigned :: "'a ref \<Rightarrow> bool" where
  "assigned (Ref a) = True"
| "assigned r = False"

text \<open>
  An order (\<open>oid\<close> is \<open>_id\<close>, \<open>ouser\<close> is \<open>user\<close>) and a delivery agent (\<open>aid\<close> is \<open>_id\<close>,
  \<open>auser\<close> is \<open>user\<close>). Dates are milliseconds since the epoch.
\<close>

record order =
  oid :: oid
  ouser :: oid
  status :: string
  deliveryAgent :: "oid ref"
  pickupLocation :: "location option"
  statusHistory :: "history_entry list"
  estimatedDeliveryTime :: "int option"
  actualDeliveryTime :: "int option"

record agent =
  aid :: oid
  auser :: oid
  vehicleType :: string
  vehicleNumber :: string
  isAvailable :: bool
  isVerified :: bool
  currentLocation :: "location option"
  activeOrders :: "oid list"
  rejectedOrders :: "oid list option"
  deliveryHistory :: "oid list"

record db =
  agents :: "agent list"
  orders :: "order list"

text \<open>The authenticated principal \<open>req.user\<close>.\<close>

record principal =
  uid :: oid
  username :: string

text \<open>
  \<open>findOne\<close> and \<open>findById\<close> return the first matching document; \<open>save\<close> writes to the
  first document with the same \<open>_id\<close>.
\<close>

definition findAgentByUser :: "db \<Rightarrow> oid \<Rightarrow> agent option" where
  "findAgentByUser d u = find (\<lambda>a. auser a = u) (agents d)"

definition findAgentById :: "db \<Rightarrow> oid \<Rightarrow> agent option" where
  "findAgentById d i = find (\<lambda>a. aid a = i) (agents d)"

definition findOrderById :: "db \<Rightarrow> oid \<Rightarrow> order option" where
  "findOrderById d i = find (\<lambda>x. oid x = i) (orders d)"

fun update_first :: "('a \<Rightarrow> bool) \<Rightarrow> ('a \<Rightarrow> 'a) \<Rightarrow> 'a list \<Rightarrow> 'a list" where
  "update_first P f [] = []"
| "update_first P f (x # xs) = (if P x then f x # xs else x # update_first P f xs)"

definition saveAgent :: "oid \<Rightarrow> (agent \<Rightarrow> agent) \<Rightarrow> db \<Rightarrow> db" where
  "saveAgent i f d = d\<lparr>agents := update_first (\<lambda>a. aid a = i) f (agents d)\<rparr>"

definition saveOrder :: "oid \<Rightarrow> (order \<Rightarrow> order) \<Rightarrow> db \<Rightarrow> db" where
  "saveOrder i f d = d\<lparr>orders := update_first (\<lambda>x. oid x = i) f (orders d)\<rparr>"

section \<open>Responses\<close>

text \<open>
  \<open>Failure c m\<close> is \<open>next(createError(c, m))\<close>, \<open>Success c m\<close> is
  \<open>res.status(c).json({ success: true, message: m, ... })\<close>. A handler returns its reply, the
  store it leaves and the socket events it sent, each as (room, event).
\<close>

datatype response = Failure nat string | Success nat string

record outcome =
  reply :: response
  db_after :: db
  emitted :: "(string \<times> string) list"

definition refuse :: "db \<Rightarrow> nat \<Rightarrow> string \<Rightarrow> outcome" where
  "refuse d c m = \<lparr>reply = Failure c m, db_after = d, emitted = []\<rparr>"

section \<open>updateLocation\<close>

definition updateLocation :: "db \<Rightarrow> principal \<Rightarrow> jsval \<Rightarrow> jsval \<Rightarrow> outcome" where
  "updateLocation d p longitude latitude =
    (if \<not> truthy longitude \<or> \<not> truthy latitude \<or> \<not> is_number longitude \<or> \<not> is_number latitude
     then refuse d 400 ''Valid longitude and latitude coordinates are required''
     else (case findAgentByUser d (uid p) of
       None \<Rightarrow> refuse d 404 ''Delivery agent profile not found''
     | Some agent \<Rightarrow>
         let loc = \<lparr>ltype = ''Point'', coordinates = Some [longitude, latitude]\<rparr>;
             d' = saveAgent (aid agent) (\<lambda>a. a\<lparr>currentLocation := Some loc\<rparr>) d;
             found = filter (\<lambda>x. oid x \<in> set (activeOrders agent) \<and>
                       status x \<in> set [''confirmed'', ''preparing'', ''out_for_delivery''])
                     (orders d')
         in \<lparr>reply = Success 200 ''Location updated successfully'',
             db_after = d',
             emitted = map (\<lambda>x. (''order_'' @ oid x, ''deliveryLocationUpdate'')) found\<rparr>))"

section \<open>acceptOrder, completeDelivery, rejectOrder\<close>

text \<open>
  Each handler first reads its documents and checks them (\<open>_load\<close>, up to the last guard),
  then changes and saves them (\<open>_commit\<close>). \<open>save\<close> writes the paths the handler changed to
  the stored document with the same \<open>_id\<close>: an assignment replaces the field, a \<open>push\<close>
  appends to the stored array. No operation of these files deletes a document.
  The two clock readings of a handler (\<open>new Date()\<close>) are its arguments \<open>t1\<close> and \<open>t2\<close>.
\<close>

text \<open>
  The time zone of the host, as the language reads it: the offset of local time from UTC,
  in milliseconds, at a UTC instant (\<open>utc_offset\<close>) and at a local wall-clock time
  (\<open>local_offset\<close>; a wall-clock time that occurs twice is read as the earlier instant, one
  that is skipped as if the offset before the change still held).
  \<open>date.setMinutes(date.getMinutes() + 30)\<close> takes the instant to local time, moves the
  wall-clock fields 30 minutes on, and takes the result back to UTC.
\<close>

record zone =
  utc_offset :: "int \<Rightarrow> int"
  local_offset :: "int \<Rightarrow> int"

definition setMinutesPlus30 :: "zone \<Rightarrow> int \<Rightarrow> int" where
  "setMinutesPlus30 Z t =
     (let local = t + utc_offset Z t;
          moved = local + 30 * 60 * 1000
      in moved - local_offset Z moved)"

definition acceptOrder_load :: "db \<Rightarrow> principal \<Rightarrow> oid \<Rightarrow> response + (agent \<times> order)" where
  "acceptOrder_load d p orderId =
    (case findAgentByUser d (uid p) of
       None \<Rightarrow> Inl (Failure 404 ''Delivery agent profile not found'')
     | Some agent \<Rightarrow>
         if \<not> isVerified agent
         then Inl (Failure 403 ''Your account is not yet verified to accept orders'')
         else if \<not> isAvailable agent
         then Inl (Failure 400 ''You need to set yourself as available to accept orders'')
         else (case findOrderById d orderId of
           None \<Rightarrow> Inl (Failure 404 ''Order not found'')
         | Some order \<Rightarrow>
             if assigned (deliveryAgent order)
             then Inl (Failure 400 ''This order has already been assigned to a delivery agent'')
             else if status order \<noteq> ''confirmed''
             then Inl (Failure 400 ''Order is not available for delivery'')
             else Inr (agent, order)))"

definition accept_entry :: "principal \<Rightarrow> agent \<Rightarrow> int \<Rightarrow> history_entry" where
  "accept_entry p agent t2 =
     \<lparr>hstatus = ''out_for_delivery'', timestamp = t2, hlocation = currentLocation agent,
      hnote = ''Assigned to delivery agent: '' @ username p\<rparr>"

definition acceptOrder_commit ::
  "zone \<Rightarrow> principal \<Rightarrow> int \<Rightarrow> int \<Rightarrow> agent \<times> order \<Rightarrow> db \<Rightarrow> outcome" where
  "acceptOrder_commit Z p t1 t2 snap d =
    (case snap of (agent, order) \<Rightarrow>
      let estimated = setMinutesPlus30 Z t1;
          d1 = saveOrder (oid order)
                 (\<lambda>x. x\<lparr>deliveryAgent := Ref (aid agent),
                        status := ''out_for_delivery'',
                        estimatedDeliveryTime := Some estimated,
                        statusHistory := statusHistory x @ [accept_entry p agent t2]\<rparr>) d;
          d2 = saveAgent (aid agent) (\<lambda>a. a\<lparr>activeOrders := activeOrders a @ [oid order]\<rparr>) d1
      in \<lparr>reply = Success 200 ''Order accepted for delivery'',
          db_after = d2,
          emitted = [(''user_'' @ ouser order, ''orderStatusUpdate'')]\<rparr>)"

definition acceptOrder :: "zone \<Rightarrow> db \<Rightarrow> principal \<Rightarrow> oid \<Rightarrow> int \<Rightarrow> int \<Rightarrow> outcome" where
  "acceptOrder Z d p orderId t1 t2 =
    (case acceptOrder_load d p orderId of
       Inl r \<Rightarrow> \<lparr>reply = r, db_after = d, emitted = []\<rparr>
     | Inr snap \<Rightarrow> acceptOrder_commit Z p t1 t2 snap d)"

definition completeDelivery_load :: "db \<Rightarrow> principal \<Rightarrow> oid \<Rightarrow> response + (agent \<times> order)" where
  "completeDelivery_load d p orderId =
    (case findAgentByUser d (uid p) of
       None \<Rightarrow> Inl (Failure 404 ''Delivery agent profile not found'')
     | Some agent \<Rightarrow>
         (case findOrderById d orderId of
           None \<Rightarrow> Inl (Failure 404 ''Order not found'')
         | Some order \<Rightarrow>
             if \<not> assigned (deliveryAgent order) \<or> deliveryAgent order \<noteq> Ref (aid agent)
             then Inl (Failure 403 ''This order is not assigned to you'')
             else if status order \<noteq> ''out_for_delivery''
             then Inl (Failure 400 ''Order is not out for delivery'')
             else Inr (agent, order)))"

definition complete_entry :: "agent \<Rightarrow> int \<Rightarrow> history_entry" where
  "complete_entry agent t2 =
     \<lparr>hstatus = ''delivered'', timestamp = t2, hlocation = currentLocation agent,
      hnote = ''Order delivered successfully''\<rparr>"

definition completeDelivery_commit :: "int \<Rightarrow> int \<Rightarrow> agent \<times> order \<Rightarrow> db \<Rightarrow> outcome" where
  "completeDelivery_commit t1 t2 snap d =
    (case snap of (agent, order) \<Rightarrow>
      let d1 = saveOrder (oid order)
                 (\<lambda>x. x\<lparr>status := ''delivered'',
                        actualDeliveryTime := Some t1,
                        statusHistory := statusHistory x @ [complete_entry agent t2]\<rparr>) d;
          d2 = saveAgent (aid agent)
                 (\<lambda>a. a\<lparr>activeOrders := filter (\<lambda>i. i \<noteq> oid order) (activeOrders agent),
                        deliveryHistory := deliveryHistory a @ [oid order]\<rparr>) d1
      in \<lparr>reply = Success 200 ''Delivery completed successfully'',
          db_after = d2,
          emitted = [(''user_'' @ ouser order, ''orderStatusUpdate'')]\<rparr>)"

definition completeDelivery :: "db \<Rightarrow> principal \<Rightarrow> oid \<Rightarrow> int \<Rightarrow> int \<Rightarrow> outcome" where
  "completeDelivery d p orderId t1 t2 =
    (case completeDelivery_load d p orderId of
       Inl r \<Rightarrow> \<lparr>reply = r, db_after = d, emitted = []\<rparr>
     | Inr snap \<Rightarrow> completeDelivery_commit t1 t2 snap d)"

text \<open>
  \<open>agent.rejectedOrders\<close> may be missing (\<open>None\<close>); the handler then starts from the empty
  array. \<open>includes\<close> on the array of a document compares ids by value.
\<close>

definition rejected_list :: "agent \<Rightarrow> oid list" where
  "rejected_list a = (case rejectedOrders a of None \<Rightarrow> [] | Some r \<Rightarrow> r)"

definition rejectOrder :: "db \<Rightarrow> principal \<Rightarrow> oid \<Rightarrow> outcome" where
  "rejectOrder d p orderId =
    (case findAgentByUser d (uid p) of
       None \<Rightarrow> refuse d 404 ''Delivery agent profile not found''
     | Some agent \<Rightarrow>
         if \<not> isVerified agent
         then refuse d 403 ''Your account is not yet verified to reject orders''
         else if \<not> isAvailable agent
         then refuse d 400 ''You need to set yourself as available to manage orders''
         else (case findOrderById d orderId of
           None \<Rightarrow> refuse d 404 ''Order not found''
         | Some order \<Rightarrow>
             if assigned (deliveryAgent order)
             then refuse d 400 ''This order has already been assigned to a delivery agent''
             else
               \<lparr>reply = Success 200 ''Order rejected successfully'',
                db_after =
                  (if oid order \<notin> set (rejected_list agent)
                   then saveAgent (aid agent)
                          (\<lambda>a. a\<lparr>rejectedOrders := Some (rejected_list a @ [oid order])\<rparr>) d
                   else d),
                emitted = []\<rparr>))"

section \<open>The other handlers of the controller\<close>

text \<open>
  \<open>fresh\<close> is the new document with its \<open>_id\<close> and the defaults of the agent schema, which
  is not among these files.
\<close>

definition registerAsDeliveryAgent :: "db \<Rightarrow> principal \<Rightarrow> string \<Rightarrow> string \<Rightarrow> agent \<Rightarrow> outcome" where
  "registerAsDeliveryAgent d p vt vn fresh =
    (case findAgentByUser d (uid p) of
       Some existing \<Rightarrow> refuse d 400 ''You are already registered as a delivery agent''
     | None \<Rightarrow>
         \<lparr>reply = Success 201 ''Registered as delivery agent successfully. Awaiting verification.'',
          db_after = d\<lparr>agents := agents d @
            [fresh\<lparr>auser := uid p, vehicleType := vt, vehicleNumber := vn,
                   isAvailable := True, isVerified := False\<rparr>]\<rparr>,
          emitted = []\<rparr>)"

definition updateAvailability :: "db \<Rightarrow> principal \<Rightarrow> jsval \<Rightarrow> outcome" where
  "updateAvailability d p v =
    (case v of
       JBool b \<Rightarrow>
         (case findAgentByUser d (uid p) of
            None \<Rightarrow> refuse d 404 ''Delivery agent profile not found''
          | Some agent \<Rightarrow>
              \<lparr>reply = Success 200 (''Availability updated to '' @
                         (if b then ''available'' else ''unavailable'')),
               db_after = saveAgent (aid agent) (\<lambda>a. a\<lparr>isAvailable := b\<rparr>) d,
               emitted = []\<rparr>)
     | _ \<Rightarrow> refuse d 400 ''isAvailable must be a boolean value'')"

definition verifyDeliveryAgent :: "db \<Rightarrow> oid \<Rightarrow> jsval \<Rightarrow> outcome" where
  "verifyDeliveryAgent d agentId v =
    (case v of
       JBool b \<Rightarrow>
         (case findAgentById d agentId of
            None \<Rightarrow> refuse d 404 ''Delivery agent not found''
          | Some agent \<Rightarrow>
              \<lparr>reply = Success 200 (''Agent '' @ (if b then ''verified'' else ''unverified'')
                         @ '' successfully''),
               db_after = saveAgent (aid agent) (\<lambda>a. a\<lparr>isVerified := b\<rparr>) d,
               emitted = []\<rparr>)
     | _ \<Rightarrow> refuse d 400 ''isVerified must be a boolean value'')"

text \<open>
  A request to the controller. The four listing handlers (\<open>getNearbyOrders\<close>,
  \<open>getAgentProfile\<close>, \<open>getAllAgents\<close>, \<open>getConfirmedOrders\<close>) only query the store.
\<close>

datatype request =
    Register principal string string agent
  | UpdateAvailability principal jsval
  | UpdateLocation principal jsval jsval
  | AcceptOrder principal oid int int
  | CompleteDelivery principal oid int int
  | VerifyDeliveryAgent oid jsval
  | RejectOrder principal oid
  | Listing

fun handle :: "zone \<Rightarrow> db \<Rightarrow> request \<Rightarrow> db" where
  "handle Z d (Register p vt vn fresh) = db_after (registerAsDeliveryAgent d p vt vn fresh)"
| "handle Z d (UpdateAvailability p v) = db_after (updateAvailability d p v)"
| "handle Z d (UpdateLocation p lon lat) = db_after (updateLocation d p lon lat)"
| "handle Z d (AcceptOrder p i t1 t2) = db_after (acceptOrder Z d p i t1 t2)"
| "handle Z d (CompleteDelivery p i t1 t2) = db_after (completeDelivery d p i t1 t2)"
| "handle Z d (VerifyDeliveryAgent i v) = db_after (verifyDeliveryAgent d i v)"
| "handle Z d (RejectOrder p i) = db_after (rejectOrder d p i)"
| "handle Z d Listing = d"

text \<open>The clock reading at which a request appends to a status history.\<close>

fun push_time :: "request \<Rightarrow> int option" where
  "push_time (AcceptOrder p i t1 t2) = Some t2"
| "push_time (CompleteDelivery p i t1 t2) = Some t2"
| "push_time r = None"

section \<open>Requests that interleave\<close>

text \<open>
  A handler gives the event loop back at each \<open>await\<close>, so another request may run between
  its reads and its writes. A task is a call of \<open>acceptOrder\<close> that has not read yet
  (\<open>Start\<close>), that has passed its guards and holds the documents it read (\<open>Ready\<close>), or that
  has replied (\<open>Done\<close>). A schedule names the task that moves next.
\<close>

datatype task =
    Start principal oid int int
  | Ready principal int int "agent \<times> order"
  | Done response

fun step_task :: "zone \<Rightarrow> db \<Rightarrow> task \<Rightarrow> db \<times> task" where
  "step_task Z d (Start p i t1 t2) =
     (case acceptOrder_load d p i of
        Inl r \<Rightarrow> (d, Done r)
      | Inr snap \<Rightarrow> (d, Ready p t1 t2 snap))"
| "step_task Z d (Ready p t1 t2 snap) =
     (let out = acceptOrder_commit Z p t1 t2 snap d in (db_after out, Done (reply out)))"
| "step_task Z d (Done r) = (d, Done r)"

fun run :: "zone \<Rightarrow> nat list \<Rightarrow> db \<times> task list \<Rightarrow> db \<times> task list" where
  "run Z [] s = s"
| "run Z (k # ks) (d, ts) =
     (if k < length ts
      then (case step_task Z d (ts ! k) of (d', t') \<Rightarrow> run Z ks (d', ts[k := t']))
      else run Z ks (d, ts))"

definition wf_db :: "db \<Rightarrow> bool" where
  "wf_db d = (distinct (map aid (agents d)) \<and> distinct (map oid (orders d)))"

section \<open>Numbers as text\<close>

text \<open>
  Decimal digits of an integer, as a template literal prints a number whose magnitude is
  below \<open>10^21\<close>; \<open>Math.round\<close>, which rounds a half up; and \<open>toFixed(2)\<close>, which takes the
  integer \<open>n\<close> nearest to \<open>100 x\<close> (the larger of two) and prints it with a point before
  its last two digits, again for magnitudes below \<open>10^21\<close>.
\<close>

definition digit_char :: "nat \<Rightarrow> char" where
  "digit_char n = ''0123456789'' ! n"

fun dec_nat :: "nat \<Rightarrow> string" where
  "dec_nat n = (if n < 10 then [digit_char n] else dec_nat (n div 10) @ [digit_char (n mod 10)])"

declare dec_nat.simps [simp del]

definition dec_int :: "int \<Rightarrow> string" where
  "dec_int i = (if i < 0 then ''-'' @ dec_nat (nat (- i)) else dec_nat (nat i))"

fun math_round :: "jsnum \<Rightarrow> jsnum" where
  "math_round (Num r) = Num (of_int \<lfloor>r + 1 / 2\<rfloor>)"
| "math_round NaN = NaN"

fun num_string :: "jsnum \<Rightarrow> string" where
  "num_string (Num r) = dec_int \<lfloor>r\<rfloor>"
| "num_string NaN = ''NaN''"

definition fixed2 :: "rat \<Rightarrow> string" where
  "fixed2 x = (let n = nat \<lfloor>x * 100 + 1 / 2\<rfloor>
               in dec_nat (n div 100) @ ''.'' @ [digit_char (n mod 100 div 10), digit_char (n mod 10)])"

fun toFixed2 :: "jsnum \<Rightarrow> string" where
  "toFixed2 (Num x) = (if x < 0 then ''-'' @ fixed2 (- x) else fixed2 x)"
| "toFixed2 NaN = ''NaN''"

text \<open>Reading decimal digits back, to check \<open>dec_nat\<close> against.\<close>

definition digit_val :: "char \<Rightarrow> nat" where
  "digit_val c = of_char c - 48"

definition nat_of_dec :: "string \<Rightarrow> nat" where
  "nat_of_dec s = foldl (\<lambda>a c. 10 * a + digit_val c) 0 s"

section \<open>Division of doubles\<close>

text \<open>
  The quotient of two doubles is the double nearest to the exact quotient, the one with
  the even significand of two equally near. A double with binary exponent \<open>e\<close> is a
  multiple of \<open>2^(e - 52)\<close>; below \<open>2^(-1022)\<close> the spacing stays \<open>2^(-1074)\<close>. A double
  divided by 1000 cannot overflow.
\<close>

fun bits :: "nat \<Rightarrow> nat" where
  "bits n = (if n = 0 then 0 else Suc (bits (n div 2)))"

declare bits.simps [simp del]

text \<open>The integer \<open>e\<close> with \<open>2^e \<le> x < 2^(e + 1)\<close>, for \<open>x > 0\<close>.\<close>

definition pow2 :: "int \<Rightarrow> rat" where
  "pow2 e = (if 0 \<le> e then 2 ^ nat e else 1 / 2 ^ nat (- e))"

definition floor_log2 :: "rat \<Rightarrow> int" where
  "floor_log2 x =
     (if 1 \<le> x then int (bits (nat \<lfloor>x\<rfloor>)) - 1
      else let k = int (bits (nat \<lfloor>1 / x\<rfloor>)) - 1
           in if 1 / x = pow2 k then - k else - k - 1)"

definition round_half_even :: "rat \<Rightarrow> int" where
  "round_half_even y =
     (let f = \<lfloor>y\<rfloor>; r = y - of_int f
      in if r < 1 / 2 then f else if 1 / 2 < r then f + 1 else if even f then f else f + 1)"

definition double_round :: "rat \<Rightarrow> rat" where
  "double_round x =
     (if x = 0 then 0
      else let ulp = pow2 (max (floor_log2 \<bar>x\<bar>) (- 1022) - 52)
           in sgn x * of_int (round_half_even (\<bar>x\<bar> / ulp)) * ulp)"

text \<open>\<open>x / 1000\<close>\<close>

fun div_1000 :: "jsnum \<Rightarrow> jsnum" where
  "div_1000 (Num a) = Num (double_round (a / 1000))"
| "div_1000 NaN = NaN"

section \<open>getNearbyOrders\<close>

text \<open>
  An exception, with the message the handler appends to its reply. The messages of a
  \<open>TypeError\<close> are worded as Node 16 and later word them.
\<close>

datatype exn = TypeError string | ReferenceError string | QueryError string

fun message_of :: "exn \<Rightarrow> string" where
  "message_of (TypeError m) = m"
| "message_of (ReferenceError m) = m"
| "message_of (QueryError m) = m"

text \<open>
  The handler calls \<open>calculateDistance\<close> with (agent latitude, agent longitude, order
  latitude, order longitude). The module imports \<open>DeliveryAgent\<close>, \<open>Order\<close>, \<open>User\<close>, \<open>io\<close>
  and \<open>createError\<close> and declares its handlers only: it neither declares nor imports
  \<open>calculateDistance\<close>, so evaluating the name throws a \<open>ReferenceError\<close>.
\<close>

definition calculateDistance :: "jsval \<Rightarrow> jsval \<Rightarrow> jsval \<Rightarrow> jsval \<Rightarrow> exn + jsnum" where
  "calculateDistance lat1 lon1 lat2 lon2 = Inl (ReferenceError ''calculateDistance is not defined'')"

text \<open>
  What the store does for the \<open>$near\<close> query is not in these files: \<open>geoDistance\<close> is the
  distance it computes between the query point and the GeoJSON point of a document
  (\<open>None\<close>: the store finds no point there), \<open>pointError\<close> the message with which it
  refuses a query point that is not two numbers.
\<close>

record geo =
  geoDistance :: "jsval \<Rightarrow> jsval \<Rightarrow> location \<Rightarrow> rat option"
  pointError :: string

definition maxDistance :: rat where
  "maxDistance = 2000"

definition MAX_SAFE_INTEGER :: rat where
  "MAX_SAFE_INTEGER = 2 ^ 53 - 1"

text \<open>An element of an array pattern: the array's element, or \<open>undefined\<close> past its end.\<close>

definition elem :: "jsval list \<Rightarrow> nat \<Rightarrow> jsval" where
  "elem cs k = (if k < length cs then cs ! k else JUndefined)"

text \<open>
  \<open>const [a, b] = x.coordinates\<close>: reading \<open>coordinates\<close> of a missing location throws, and
  so does the array pattern on a missing \<open>coordinates\<close>.
\<close>

definition destructure :: "location option \<Rightarrow> exn + jsval \<times> jsval" where
  "destructure x =
     (case x of
        None \<Rightarrow>
          Inl (TypeError (''Cannot read properties of undefined (reading '' @ [CHR 0x27]
                 @ ''coordinates'' @ [CHR 0x27] @ '')''))
      | Some loc \<Rightarrow>
          (case coordinates loc of
             None \<Rightarrow>
               Inl (TypeError ''undefined is not iterable (cannot read property Symbol(Symbol.iterator))'')
           | Some cs \<Rightarrow> Inr (elem cs 0, elem cs 1)))"

definition distance_text :: "jsnum \<Rightarrow> string" where
  "distance_text exactDistance =
     (if js_lt exactDistance (Num 1000)
      then num_string (math_round exactDistance) @ '' m''
      else toFixed2 (div_1000 exactDistance) @ '' km'')"

record listed =
  lorder :: order
  dvalue :: jsnum
  dunit :: string
  dtext :: string
  derror :: "string option"
  withinDeliveryRange :: "bool option"

text \<open>The body of the \<open>try\<close> up to the distance.\<close>

definition order_distance :: "jsval \<Rightarrow> jsval \<Rightarrow> order \<Rightarrow> exn + jsnum" where
  "order_distance latitude longitude order =
     (case destructure (pickupLocation order) of
        Inl err \<Rightarrow> Inl err
      | Inr (orderLongitude, orderLatitude) \<Rightarrow>
          calculateDistance latitude longitude orderLatitude orderLongitude)"

definition annotate :: "jsval \<Rightarrow> jsval \<Rightarrow> order \<Rightarrow> listed" where
  "annotate latitude longitude order =
     (case order_distance latitude longitude order of
        Inr exactDistance \<Rightarrow>
          \<lparr>lorder = order, dvalue = exactDistance, dunit = ''meters'',
           dtext = distance_text exactDistance, derror = None,
           withinDeliveryRange = Some (js_le exactDistance (Num maxDistance))\<rparr>
      | Inl err \<Rightarrow>
          \<lparr>lorder = order, dvalue = Num MAX_SAFE_INTEGER, dunit = ''meters'',
           dtext = ''Unknown'', derror = Some ''Invalid coordinates'',
           withinDeliveryRange = Some False\<rparr>)"

text \<open>The same for an active order, where no \<open>try\<close> surrounds it.\<close>

definition annotate_active :: "jsval \<Rightarrow> jsval \<Rightarrow> order \<Rightarrow> exn + listed" where
  "annotate_active latitude longitude order =
     (case order_distance latitude longitude order of
        Inr exactDistance \<Rightarrow>
          Inr \<lparr>lorder = order, dvalue = exactDistance, dunit = ''meters'',
               dtext = distance_text exactDistance, derror = None,
               withinDeliveryRange = None\<rparr>
      | Inl err \<Rightarrow> Inl err)"

text \<open>\<open>Promise.all\<close> over callbacks that do not wait: the first rejection, or all the values.\<close>

fun promise_all :: "(exn + 'a) list \<Rightarrow> exn + 'a list" where
  "promise_all [] = Inr []"
| "promise_all (Inl err # rs) = Inl err"
| "promise_all (Inr v # rs) = (case promise_all rs of Inl err \<Rightarrow> Inl err | Inr vs \<Rightarrow> Inr (v # vs))"

text \<open>
  \<open>sort\<close> with the comparator \<open>a.distance.value - b.distance.value\<close>: a stable insertion
  sort that moves \<open>a\<close> behind \<open>b\<close> when the difference is positive. (A difference with NaN
  would be NaN, which \<open>sort\<close> reads as 0 and which leaves the order to the engine; no value
  of a candidate is NaN, see \<open>candidate_value\<close> below.)
\<close>

definition farther :: "listed \<Rightarrow> listed \<Rightarrow> bool" where
  "farther a b = js_lt (dvalue b) (dvalue a)"

fun insert_by :: "('a \<Rightarrow> 'a \<Rightarrow> bool) \<Rightarrow> 'a \<Rightarrow> 'a list \<Rightarrow> 'a list" where
  "insert_by gt x [] = [x]"
| "insert_by gt x (y # ys) = (if gt x y then y # insert_by gt x ys else x # y # ys)"

definition sort_by :: "('a \<Rightarrow> 'a \<Rightarrow> bool) \<Rightarrow> 'a list \<Rightarrow> 'a list" where
  "sort_by gt xs = foldr (insert_by gt) xs []"

text \<open>The query of the handler without its location filter (\<open>orderQuery\<close>).\<close>

definition orderQuery :: "agent \<Rightarrow> order \<Rightarrow> bool" where
  "orderQuery agent x =
     (oid x \<notin> set (rejected_list agent) \<and> deliveryAgent x = Absent \<and> status x = ''confirmed'')"

text \<open>
  The \<open>$near\<close> filter: documents with a point at most \<open>$maxDistance\<close> from the query point,
  nearest first.
\<close>

definition near_distance :: "geo \<Rightarrow> jsval \<Rightarrow> jsval \<Rightarrow> order \<Rightarrow> rat option" where
  "near_distance S longitude latitude x =
     (case pickupLocation x of None \<Rightarrow> None | Some loc \<Rightarrow> geoDistance S longitude latitude loc)"

definition near :: "geo \<Rightarrow> jsval \<Rightarrow> jsval \<Rightarrow> rat \<Rightarrow> order \<Rightarrow> bool" where
  "near S longitude latitude m x =
     (case near_distance S longitude latitude x of None \<Rightarrow> False | Some g \<Rightarrow> g \<le> m)"

definition near_query :: "geo \<Rightarrow> jsval \<Rightarrow> jsval \<Rightarrow> rat \<Rightarrow> order list \<Rightarrow> order list" where
  "near_query S longitude latitude m xs =
     sort_key (\<lambda>x. case near_distance S longitude latitude x of None \<Rightarrow> 0 | Some g \<Rightarrow> g)
       (filter (near S longitude latitude m) xs)"

definition allConfirmedOrders :: "geo \<Rightarrow> db \<Rightarrow> agent \<Rightarrow> bool \<Rightarrow> jsval \<Rightarrow> jsval \<Rightarrow> order list" where
  "allConfirmedOrders S d agent includeAllConfirmed longitude latitude =
     (if includeAllConfirmed
      then filter (orderQuery agent) (orders d)
      else near_query S longitude latitude maxDistance (filter (orderQuery agent) (orders d)))"

definition ordersWithDistance :: "geo \<Rightarrow> db \<Rightarrow> agent \<Rightarrow> bool \<Rightarrow> jsval \<Rightarrow> jsval \<Rightarrow> listed list" where
  "ordersWithDistance S d agent includeAllConfirmed longitude latitude =
     sort_by farther
       (map (annotate latitude longitude)
          (allConfirmedOrders S d agent includeAllConfirmed longitude latitude))"

definition activeOrders_query :: "db \<Rightarrow> agent \<Rightarrow> order list" where
  "activeOrders_query d agent =
     filter (\<lambda>x. oid x \<in> set (activeOrders agent) \<and> status x = ''out_for_delivery'') (orders d)"

definition activeOrdersWithDistance :: "db \<Rightarrow> agent \<Rightarrow> jsval \<Rightarrow> jsval \<Rightarrow> exn + listed list" where
  "activeOrdersWithDistance d agent longitude latitude =
     promise_all (map (annotate_active latitude longitude) (activeOrders_query d agent))"

record nearby =
  message :: string
  count :: nat
  listing :: "listed list"

text \<open>
  An exception outside the inner \<open>try\<close> reaches the handler's \<open>catch\<close>, which answers 500
  with the exception's message: the agent's own coordinates cannot be destructured, the
  store refuses a \<open>$near\<close> point that is not two numbers, or an active order has no
  distance.
\<close>

definition failed :: "exn \<Rightarrow> response" where
  "failed err = Failure 500 (''Error fetching nearby orders: '' @ message_of err)"

definition getNearbyOrders :: "geo \<Rightarrow> db \<Rightarrow> principal \<Rightarrow> bool \<Rightarrow> response + nearby" where
  "getNearbyOrders S d p includeAllConfirmed =
    (case findAgentByUser d (uid p) of
       None \<Rightarrow> Inl (Failure 404 ''Delivery agent profile not found'')
     | Some agent \<Rightarrow>
         if \<not> isVerified agent
         then Inl (Failure 403 ''Your account is not yet verified to accept orders'')
         else if \<not> isAvailable agent
         then Inl (Failure 400 ''You are currently set as unavailable for deliveries'')
         else (case destructure (currentLocation agent) of
           Inl err \<Rightarrow> Inl (failed err)
         | Inr (longitude, latitude) \<Rightarrow>
             if \<not> includeAllConfirmed \<and> \<not> (is_number longitude \<and> is_number latitude)
             then Inl (failed (QueryError (pointError S)))
             else (case activeOrdersWithDistance d agent longitude latitude of
               Inl err \<Rightarrow> Inl (failed err)
             | Inr active \<Rightarrow>
                 let allOrders =
                   ordersWithDistance S d agent includeAllConfirmed longitude latitude @ active
                 in Inr \<lparr>message = (if includeAllConfirmed
                                     then ''All confirmed orders fetched successfully''
                                     else ''Nearby orders fetched successfully''),
                         count = length allOrders,
                         listing = allOrders\<rparr>)))"

text \<open>
  Pickup coordinates that are well formed: a location whose first two coordinates are
  numbers. \<open>without_malformed\<close> is the store without the orders of the agent's query whose
  pickup coordinates are malformed or missing.
\<close>

definition pickup_numbers :: "order \<Rightarrow> (rat \<times> rat) option" where
  "pickup_numbers x =
     (case pickupLocation x of
        None \<Rightarrow> None
      | Some loc \<Rightarrow>
          (case coordinates loc of
             None \<Rightarrow> None
           | Some cs \<Rightarrow>
               (case (elem cs 0, elem cs 1) of
                  (JNumber (Num a), JNumber (Num b)) \<Rightarrow> Some (a, b)
                | _ \<Rightarrow> None)))"


section \<open>The change stream\<close>

text \<open>
  A change event carries its operation type and, when the lookup found the document, the
  order as it is now. Each emission is (room, event, payload); only the payload for the
  order's own room has \<open>latestStatus\<close> (\<open>None\<close> is \<open>null\<close>).
\<close>

record change =
  operationType :: string
  fullDocument :: "order option"

datatype payload =
    OrderRoomUpdate oid string "history_entry option"
  | PartyUpdate oid string

definition on_change :: "change \<Rightarrow> (string \<times> string \<times> payload) list" where
  "on_change c =
    (if operationType c = ''update'' \<or> operationType c = ''insert'' \<or> operationType c = ''replace''
     then (case fullDocument c of
        None \<Rightarrow> []
      | Some order \<Rightarrow>
          [(''order_'' @ oid order, ''orderUpdate'',
              OrderRoomUpdate (oid order) (status order)
                (if statusHistory order \<noteq> [] then Some (last (statusHistory order)) else None)),
           (''user_'' @ ouser order, ''orderUpdate'', PartyUpdate (oid order) (status order))]
          @ (case deliveryAgent order of
               Ref a \<Rightarrow> [(''agent_'' @ a, ''orderUpdate'', PartyUpdate (oid order) (status order))]
             | _ \<Rightarrow> []))
     else [])"

definition topics :: "change \<Rightarrow> string list" where
  "topics c = map fst (on_change c)"

text \<open>
  The watcher: the module's variable \<open>orderChangeStream\<close> (streams are numbered as they
  are opened), the \<open>readyState\<close> of the connection, the streams that are open with their
  handlers attached, the pending \<open>setTimeout(createOrderChangeStream, 5000)\<close> calls, and the
  number of streams opened so far. A stream that closes emits \<open>close\<close> to its handler.
\<close>

record watcher =
  orderChangeStream :: "nat option"
  readyState :: nat
  live :: "nat list"
  timers :: nat
  watches :: nat

text \<open>The handler of \<open>close\<close>.\<close>

definition on_close :: "watcher \<Rightarrow> watcher" where
  "on_close w = (if readyState w = 1 then w\<lparr>timers := Suc (timers w)\<rparr> else w)"

text \<open>The handler of \<open>error\<close>.\<close>

definition on_error :: "watcher \<Rightarrow> watcher" where
  "on_error w = w\<lparr>timers := Suc (timers w)\<rparr>"

text \<open>\<open>stream.close()\<close>\<close>

definition close_stream :: "nat \<Rightarrow> watcher \<Rightarrow> watcher" where
  "close_stream h w = (if h \<in> set (live w) then on_close (w\<lparr>live := removeAll h (live w)\<rparr>) else w)"

text \<open>\<open>watch_ok\<close> tells whether \<open>Order.watch\<close> returns a stream or throws.\<close>

definition createOrderChangeStream :: "bool \<Rightarrow> watcher \<Rightarrow> watcher" where
  "createOrderChangeStream watch_ok w =
    (let w1 = (case orderChangeStream w of Some h \<Rightarrow> close_stream h w | None \<Rightarrow> w)
     in if watch_ok
        then w1\<lparr>orderChangeStream := Some (watches w1),
                live := watches w1 # live w1,
                watches := Suc (watches w1)\<rparr>
        else w1\<lparr>timers := Suc (timers w1)\<rparr>)"

definition closeChangeStreams :: "watcher \<Rightarrow> watcher" where
  "closeChangeStreams w =
    (case orderChangeStream w of
       Some h \<Rightarrow> (close_stream h w)\<lparr>orderChangeStream := None\<rparr>
     | None \<Rightarrow> w)"

text \<open>
  What happens to the watcher: the shutdown signal (\<open>gracefulShutdown\<close> closes the change
  streams first and the connection only once the server has closed), the closing of the
  connection, a pending timer that fires, and a stream that fails or closes by itself.
\<close>

datatype happening =
    ShutdownSignal
  | ConnectionClosed
  | TimerFires bool
  | StreamError
  | StreamCloses nat

fun react :: "watcher \<Rightarrow> happening \<Rightarrow> watcher" where
  "react w ShutdownSignal = closeChangeStreams w"
| "react w ConnectionClosed = w\<lparr>readyState := 0\<rparr>"
| "react w (TimerFires watch_ok) =
     (if timers w = 0 then w else createOrderChangeStream watch_ok (w\<lparr>timers := timers w - 1\<rparr>))"
| "react w StreamError = on_error w"
| "react w (StreamCloses h) = close_stream h w"

definition watching :: watcher where
  "watching = \<lparr>orderChangeStream = Some 0, readyState = 1, live = [0], timers = 0, watches = 1\<rparr>"

text \<open>
  The clock reading a request stamps on its history entry is not earlier than any
  timestamp already in the order's history.
\<close>

definition clock_after :: "request \<Rightarrow> order \<Rightarrow> bool" where
  "clock_after r x =
     (case push_time r of
        None \<Rightarrow> True
      | Some t \<Rightarrow> list_all (\<lambda>e. timestamp e \<le> t) (statusHistory x))"

text \<open>How one request may change one order: the history only grows, at its end, by at most one entry.\<close>

definition history_step :: "request \<Rightarrow> order \<Rightarrow> order \<Rightarrow> bool" where
  "history_step r x y =
     (oid y = oid x
      \<and> prefix (statusHistory x) (statusHistory y)
      \<and> length (statusHistory y) \<le> Suc (length (statusHistory x))
      \<and> (sorted (map timestamp (statusHistory x)) \<and> clock_after r x
           \<longrightarrow> sorted (map timestamp (statusHistory y))))"

section \<open>Sample documents\<close>

definition point :: "rat \<Rightarrow> rat \<Rightarrow> location" where
  "point lon lat = \<lparr>ltype = ''Point'', coordinates = Some [JNumber (Num lon), JNumber (Num lat)]\<rparr>"

definition agentA :: agent where
  "agentA = \<lparr>aid = ''a1'', auser = ''u1'', vehicleType = ''bike'', vehicleNumber = ''KA01'',
     isAvailable = True, isVerified = True,
     currentLocation = Some (point (775946 / 10000) (129716 / 10000)),
     activeOrders = [], rejectedOrders = Some [], deliveryHistory = []\<rparr>"

definition agentB :: agent where
  "agentB = \<lparr>aid = ''a2'', auser = ''u2'', vehicleType = ''car'', vehicleNumber = ''KA02'',
     isAvailable = True, isVerified = True,
     currentLocation = Some (point (776 / 10) (13)),
     activeOrders = [], rejectedOrders = None, deliveryHistory = []\<rparr>"

definition order1 :: order where
  "order1 = \<lparr>oid = ''o1'', ouser = ''c1'', status = ''confirmed'', deliveryAgent = Absent,
     pickupLocation = Some (point (776 / 10) (1297 / 100)),
     statusHistory = [\<lparr>hstatus = ''confirmed'', timestamp = 1000, hlocation = None,
                       hnote = ''Order confirmed''\<rparr>],
     estimatedDeliveryTime = None, actualDeliveryTime = None\<rparr>"

definition db0 :: db where
  "db0 = \<lparr>agents = [agentA, agentB], orders = [order1]\<rparr>"

definition alice :: principal where
  "alice = \<lparr>uid = ''u1'', username = ''alice''\<rparr>"

definition bob :: principal where
  "bob = \<lparr>uid = ''u2'', username = ''bob''\<rparr>"

text \<open>
  Two zones: UTC, and New York around the end of daylight saving time in 2024. Clocks went
  back from 02:00 EDT (UTC-4) to 01:00 EST (UTC-5) at 2024-11-03T06:00Z, which is
  1730613600000; the wall-clock time 02:00 of that day, read as if it were UTC, is
  1730599200000.
\<close>

definition utc :: zone where
  "utc = \<lparr>utc_offset = (\<lambda>t. 0), local_offset = (\<lambda>l. 0)\<rparr>"

definition new_york :: zone where
  "new_york =
     \<lparr>utc_offset = (\<lambda>t. if t < 1730613600000 then - 14400000 else - 18000000),
      local_offset = (\<lambda>l. if l < 1730599200000 then - 14400000 else - 18000000)\<rparr>"

definition order_out :: order where
  "order_out = order1\<lparr>oid := ''o2'', status := ''out_for_delivery'', deliveryAgent := Ref ''a1''\<rparr>"

definition db1 :: db where
  "db1 = \<lparr>agents = [agentA\<lparr>activeOrders := [''o2'']\<rparr>, agentB], orders = [order1, order_out]\<rparr>"

text \<open>
  A stand-in for the store's distance, used in the examples only: 111000 metres for each
  degree of latitude and of longitude between two points given as numbers.
\<close>

definition degrees_apart :: "jsval \<Rightarrow> jsval \<Rightarrow> jsval \<Rightarrow> jsval \<Rightarrow> rat option" where
  "degrees_apart lat1 lon1 lat2 lon2 =
     (case (lat1, lon1, lat2, lon2) of
        (JNumber (Num a), JNumber (Num b), JNumber (Num c), JNumber (Num e)) \<Rightarrow>
          Some (111000 * (\<bar>a - c\<bar> + \<bar>b - e\<bar>))
      | _ \<Rightarrow> None)"

definition sampleStore :: geo where
  "sampleStore =
     \<lparr>geoDistance = (\<lambda>lon lat loc.
        case coordinates loc of
          Some [lon2, lat2] \<Rightarrow> degrees_apart lat lon lat2 lon2
        | _ \<Rightarrow> None),
      pointError = ''invalid point''\<rparr>"

definition order_far :: order where
  "order_far = order1\<lparr>oid := ''o3'', pickupLocation := Some (point (777 / 10) 13)\<rparr>"

definition order_nowhere :: order where
  "order_nowhere = order1\<lparr>oid := ''o4'', pickupLocation := None\<rparr>"

definition order_mid :: order where
  "order_mid = order1\<lparr>oid := ''o5'', pickupLocation := Some (point (7761 / 100) (1297 / 100))\<rparr>"

definition agentA2 :: agent where
  "agentA2 = agentA\<lparr>activeOrders := [''o2'']\<rparr>"



text \<open>The same orders, for an agent with no active order (\<open>db2\<close>) and with one (\<open>db3\<close>).\<close>

definition db2 :: db where
  "db2 = \<lparr>agents = [agentA, agentB], orders = [order_far, order_nowhere, order_mid, order1, order_out]\<rparr>"

definition db3 :: db where
  "db3 = \<lparr>agents = [agentA2, agentB], orders = [order_far, order_nowhere, order_mid, order1, order_out]\<rparr>"

definition change_assigned :: change where
  "change_assigned = \<lparr>operationType = ''update'', fullDocument = Some order_out\<rparr>"

definition change_unassigned :: change where
  "change_unassigned = \<lparr>operationType = ''insert'', fullDocument = Some order1\<rparr>"

definition change_gone :: change where
  "change_gone = \<lparr>operationType = ''update'', fullDocument = None\<rparr>"

section \<open>Facts about the store\<close>

lemma find_update_first:
  assumes "\<And>x. P x \<Longrightarrow> P (f x)"
  shows "find P (update_first P f xs) = map_option f (find P xs)"
  using assms by (induction xs) auto

lemma findOrderById_saveOrder:
  "findOrderById (saveOrder i f d) i = map_option f (findOrderById d i)" if "\<And>x. oid (f x) = oid x"
  unfolding findOrderById_def saveOrder_def using that
  by (simp add: find_update_first)

lemma find_update_first_key:
  assumes "find Q xs = Some a" "distinct (map k xs)" "\<And>x. Q (f x) = Q x"
  shows "find Q (update_first (\<lambda>x. k x = k a) f xs) = Some (f a)"
  using assms
proof (induction xs)
  case Nil then show ?case by simp
next
  case (Cons x xs)
  show ?case
  proof (cases "Q x")
    case True
    with Cons.prems have "x = a" by simp
    with True Cons.prems(3) show ?thesis by simp
  next
    case False
    with Cons.prems have fa: "find Q xs = Some a" by simp
    then have "a \<in> set xs" by (auto simp: find_Some_iff)
    with Cons.prems(2) have "k x \<noteq> k a" by force
    with False fa Cons show ?thesis by simp
  qed
qed

lemma findAgentByUser_saveAgent:
  assumes "findAgentByUser d u = Some a" "distinct (map aid (agents d))" "\<And>x. auser (f x) = auser x"
  shows "findAgentByUser (saveAgent (aid a) f d) u = Some (f a)"
  using assms unfolding findAgentByUser_def saveAgent_def
  by (simp add: find_update_first_key [where k = aid])

lemma findAgentByUser_saveOrder [simp]: "findAgentByUser (saveOrder i f d) u = findAgentByUser d u"
  by (simp add: findAgentByUser_def saveOrder_def)

lemma findOrderById_saveAgent [simp]: "findOrderById (saveAgent i f d) j = findOrderById d j"
  by (simp add: findOrderById_def saveAgent_def)

lemma agents_saveOrder [simp]: "agents (saveOrder i f d) = agents d"
  by (simp add: saveOrder_def)

lemma orders_saveAgent [simp]: "orders (saveAgent i f d) = orders d"
  by (simp add: saveAgent_def)

lemma findOrderById_oid: "findOrderById d i = Some x \<Longrightarrow> oid x = i"
  by (auto simp: findOrderById_def find_Some_iff)

lemma count_list_append: "count_list (xs @ ys) y = count_list xs y + count_list ys y"
  by (induction xs) auto

lemma rejected_list_update [simp]: "rejected_list (a\<lparr>rejectedOrders := Some r\<rparr>) = r"
  by (simp add: rejected_list_def)

lemma sample_lookups:
  "findAgentByUser db0 (uid alice) = Some agentA"
  "findAgentByUser db0 (uid bob) = Some agentB"
  "findOrderById db0 ''o1'' = Some order1"
  "findAgentByUser db1 (uid bob) = Some agentB"
  "findOrderById db1 ''o2'' = Some order_out"
  "wf_db db0"
  by (simp_all add: findAgentByUser_def findOrderById_def db0_def db1_def agentA_def agentB_def
      order1_def order_out_def alice_def bob_def wf_db_def)

section \<open>Accepting an order\<close>

text \<open>
  What a successful \<open>acceptOrder\<close> leaves behind, for any zone: the estimated delivery time
  is the clock reading moved 30 minutes on by the host's wall clock.
\<close>

lemma acceptOrder_effects:
  assumes "wf_db d"
    and "findAgentByUser d (uid p) = Some a" and "isVerified a" and "isAvailable a"
    and "findOrderById d i = Some x" and "status x = ''confirmed''"
    and "\<not> assigned (deliveryAgent x)"
  shows "reply (acceptOrder Z d p i t1 t2) = Success 200 ''Order accepted for delivery''
    \<and> findOrderById (db_after (acceptOrder Z d p i t1 t2)) i =
        Some (x\<lparr>deliveryAgent := Ref (aid a), status := ''out_for_delivery'',
                estimatedDeliveryTime := Some (setMinutesPlus30 Z t1),
                statusHistory := statusHistory x @ [accept_entry p a t2]\<rparr>)
    \<and> findAgentByUser (db_after (acceptOrder Z d p i t1 t2)) (uid p) =
        Some (a\<lparr>activeOrders := activeOrders a @ [i]\<rparr>)"
proof -
  have ld: "acceptOrder_load d p i = Inr (a, x)"
    using assms by (simp add: acceptOrder_load_def)
  have xi: "oid x = i" using assms(5) by (rule findOrderById_oid)
  have da: "distinct (map aid (agents d))" using assms(1) by (simp add: wf_db_def)
  show ?thesis
    using assms(2,5) da xi
    by (simp add: acceptOrder_def ld acceptOrder_commit_def Let_def findOrderById_saveOrder
        findAgentByUser_saveAgent)
qed

lemma setMinutesPlus30_fixed_offset:
  assumes "\<And>t. utc_offset Z t = c" "\<And>l. local_offset Z l = c"
  shows "setMinutesPlus30 Z t = t + 1800000"
  by (simp add: setMinutesPlus30_def Let_def assms)

text \<open>
  Claim C2. A verified, available agent accepts a confirmed, unassigned order on a host in
  the zone of New York when the clock reads 2024-11-03T05:45Z, which is 01:45 EDT. The
  request succeeds, the order is \<open>out_for_delivery\<close> with that agent and with one more
  history entry, and the agent holds the order among its active orders; but the wall
  clock moved on by 30 minutes reads 02:15, which is EST, so the estimated delivery time
  stored is 07:15Z: 90 minutes after the clock reading, not 30. On a host in UTC the
  same request stores the clock reading plus 30 minutes.
\<close>

theorem acceptOrder_estimate_fall_back:
  "reply (acceptOrder new_york db0 alice ''o1'' 1730612700000 1730612700001)
     = Success 200 ''Order accepted for delivery''
   \<and> map (\<lambda>x. (status x, deliveryAgent x, estimatedDeliveryTime x, length (statusHistory x)))
        (orders (db_after (acceptOrder new_york db0 alice ''o1'' 1730612700000 1730612700001)))
     = [(''out_for_delivery'', Ref ''a1'', Some 1730618100000, 2)]
   \<and> map activeOrders (agents (db_after (acceptOrder new_york db0 alice ''o1'' 1730612700000 1730612700001)))
     = [[''o1''], []]
   \<and> (1730618100000 :: int) = 1730612700000 + 90 * 60 * 1000
   \<and> map estimatedDeliveryTime
        (orders (db_after (acceptOrder utc db0 alice ''o1'' 1730612700000 1730612700001)))
     = [Some (1730612700000 + 30 * 60 * 1000)]"
  by code_simp

section \<open>Completing a delivery\<close>

text \<open>
  Claim C4. When the order is assigned to agent \<open>a\<close> and the requester's agent is another
  one, \<open>completeDelivery\<close> answers 403 and leaves the whole store, and so the order's
  status, agent, history and delivery time, as it was; it sends no event.
\<close>

theorem completeDelivery_forbidden:
  assumes "findAgentByUser d (uid p) = Some b"
    and "findOrderById d i = Some x" and "deliveryAgent x = Ref a" and "aid b \<noteq> a"
  shows "reply (completeDelivery d p i t1 t2) = Failure 403 ''This order is not assigned to you''
    \<and> db_after (completeDelivery d p i t1 t2) = d
    \<and> emitted (completeDelivery d p i t1 t2) = []"
  using assms by (auto simp: completeDelivery_def completeDelivery_load_def)

theorem completeDelivery_forbidden_witness:
  "findAgentByUser db1 (uid bob) = Some agentB \<and> findOrderById db1 ''o2'' = Some order_out
   \<and> deliveryAgent order_out = Ref ''a1'' \<and> aid agentB \<noteq> ''a1''
   \<and> reply (completeDelivery db1 bob ''o2'' 7000 7001) = Failure 403 ''This order is not assigned to you''
   \<and> db_after (completeDelivery db1 bob ''o2'' 7000 7001) = db1
   \<and> emitted (completeDelivery db1 bob ''o2'' 7000 7001) = []"
proof -
  have h: "deliveryAgent order_out = Ref ''a1''" "aid agentB \<noteq> ''a1''"
    by (simp_all add: order_out_def agentB_def)
  show ?thesis
    using completeDelivery_forbidden [OF sample_lookups(4) sample_lookups(5) h, of 7000 7001]
      sample_lookups h
    by simp
qed

section \<open>Rejecting an order\<close>

text \<open>
  Claim C5. For a verified, available agent and an order with no agent assigned, whose id
  is at most once among the agent's rejected orders, two calls of \<open>rejectOrder\<close> both
  succeed, the second changes nothing, the id is then among the rejected orders exactly
  once, and the orders of the store are untouched.
\<close>

theorem rejectOrder_idempotent:
  assumes "wf_db d"
    and "findAgentByUser d (uid p) = Some a" and "isVerified a" and "isAvailable a"
    and "findOrderById d i = Some x" and "\<not> assigned (deliveryAgent x)"
    and "count_list (rejected_list a) i \<le> 1"
  shows "reply (rejectOrder d p i) = Success 200 ''Order rejected successfully''
    \<and> reply (rejectOrder (db_after (rejectOrder d p i)) p i) = Success 200 ''Order rejected successfully''
    \<and> db_after (rejectOrder (db_after (rejectOrder d p i)) p i) = db_after (rejectOrder d p i)
    \<and> (\<exists>a'. findAgentByUser (db_after (rejectOrder (db_after (rejectOrder d p i)) p i)) (uid p) = Some a'
          \<and> count_list (rejected_list a') i = 1)
    \<and> orders (db_after (rejectOrder (db_after (rejectOrder d p i)) p i)) = orders d"
proof -
  let ?d1 = "db_after (rejectOrder d p i)"
  have xi: "oid x = i" using assms(5) by (rule findOrderById_oid)
  have da: "distinct (map aid (agents d))" using assms(1) by (simp add: wf_db_def)
  define a' where "a' = (if i \<in> set (rejected_list a) then a
                         else a\<lparr>rejectedOrders := Some (rejected_list a @ [i])\<rparr>)"
  have r1: "reply (rejectOrder d p i) = Success 200 ''Order rejected successfully''"
    using assms by (simp add: rejectOrder_def)
  have d1: "?d1 = (if i \<in> set (rejected_list a) then d
                   else saveAgent (aid a) (\<lambda>a. a\<lparr>rejectedOrders := Some (rejected_list a @ [i])\<rparr>) d)"
    using assms xi by (simp add: rejectOrder_def)
  have ag1: "findAgentByUser ?d1 (uid p) = Some a'"
    using assms(2) da by (simp add: d1 a'_def findAgentByUser_saveAgent)
  have or1: "findOrderById ?d1 i = Some x" "orders ?d1 = orders d"
    using assms(5) by (simp_all add: d1)
  have props: "isVerified a'" "isAvailable a'" "i \<in> set (rejected_list a')"
    using assms(3,4) by (auto simp: a'_def)
  have cnt: "count_list (rejected_list a') i = 1"
  proof (cases "i \<in> set (rejected_list a)")
    case True
    then have "count_list (rejected_list a) i \<noteq> 0" by (simp add: count_list_0_iff)
    with assms(7) True show ?thesis by (simp add: a'_def)
  next
    case False
    then have "count_list (rejected_list a) i = 0" by (simp add: count_list_0_iff)
    with False show ?thesis by (simp add: a'_def count_list_append)
  qed
  have r2: "rejectOrder ?d1 p i = \<lparr>reply = Success 200 ''Order rejected successfully'', db_after = ?d1, emitted = []\<rparr>"
    using ag1 or1(1) props assms(6) xi by (simp add: rejectOrder_def [of ?d1])
  show ?thesis using r1 r2 ag1 cnt or1(2) by simp
qed

theorem rejectOrder_idempotent_witness:
  "wf_db db0 \<and> findAgentByUser db0 (uid bob) = Some agentB \<and> isVerified agentB \<and> isAvailable agentB
   \<and> findOrderById db0 ''o1'' = Some order1 \<and> \<not> assigned (deliveryAgent order1)
   \<and> count_list (rejected_list agentB) ''o1'' \<le> 1
   \<and> reply (rejectOrder db0 bob ''o1'') = Success 200 ''Order rejected successfully''
   \<and> reply (rejectOrder (db_after (rejectOrder db0 bob ''o1'')) bob ''o1'') = Success 200 ''Order rejected successfully''
   \<and> db_after (rejectOrder (db_after (rejectOrder db0 bob ''o1'')) bob ''o1'') = db_after (rejectOrder db0 bob ''o1'')
   \<and> orders (db_after (rejectOrder (db_after (rejectOrder db0 bob ''o1'')) bob ''o1'')) = orders db0
   \<and> map_option rejectedOrders
        (findAgentByUser (db_after (rejectOrder (db_after (rejectOrder db0 bob ''o1'')) bob ''o1'')) (uid bob))
      = Some (Some [''o1''])"
proof -
  have h: "isVerified agentB" "isAvailable agentB" "\<not> assigned (deliveryAgent order1)"
    "count_list (rejected_list agentB) ''o1'' \<le> 1"
    by (simp_all add: agentB_def order1_def rejected_list_def)
  have r: "map_option rejectedOrders
        (findAgentByUser (db_after (rejectOrder (db_after (rejectOrder db0 bob ''o1'')) bob ''o1'')) (uid bob))
      = Some (Some [''o1''])"
    by code_simp
  show ?thesis
    using rejectOrder_idempotent [OF sample_lookups(6) sample_lookups(2) h(1) h(2) sample_lookups(3) h(3) h(4)]
      sample_lookups h r
    by blast
qed

section \<open>Location updates\<close>

text \<open>
  Claim C10. A location update whose longitude or latitude is the number 0 is refused with
  the 400 validation error and leaves the store as it was; and an update that succeeds had
  two numbers, both different from 0.
\<close>

theorem updateLocation_zero_rejected:
  "(longitude = JNumber (Num 0) \<or> latitude = JNumber (Num 0) \<longrightarrow>
      reply (updateLocation d p longitude latitude)
        = Failure 400 ''Valid longitude and latitude coordinates are required''
      \<and> db_after (updateLocation d p longitude latitude) = d)
   \<and> ((\<exists>m. reply (updateLocation d p longitude latitude) = Success 200 m) \<longrightarrow>
      (\<exists>a b. longitude = JNumber (Num a) \<and> latitude = JNumber (Num b) \<and> a \<noteq> 0 \<and> b \<noteq> 0))"
proof (intro conjI impI)
  assume z: "longitude = JNumber (Num 0) \<or> latitude = JNumber (Num 0)"
  then have "\<not> truthy longitude \<or> \<not> truthy latitude" by auto
  then show "reply (updateLocation d p longitude latitude)
        = Failure 400 ''Valid longitude and latitude coordinates are required''"
    and "db_after (updateLocation d p longitude latitude) = d"
    by (auto simp: updateLocation_def refuse_def)
next
  assume "\<exists>m. reply (updateLocation d p longitude latitude) = Success 200 m"
  then have ok: "truthy longitude" "truthy latitude" "is_number longitude" "is_number latitude"
    by (auto simp: updateLocation_def refuse_def split: if_splits)
  from ok(1,3) obtain a where a: "longitude = JNumber (Num a)" "a \<noteq> 0"
    by (cases longitude rule: truthy.cases) auto
  from ok(2,4) obtain b where b: "latitude = JNumber (Num b)" "b \<noteq> 0"
    by (cases latitude rule: truthy.cases) auto
  from a b show "\<exists>a b. longitude = JNumber (Num a) \<and> latitude = JNumber (Num b) \<and> a \<noteq> 0 \<and> b \<noteq> 0"
    by blast
qed

theorem updateLocation_zero_rejected_witness:
  "reply (updateLocation db0 alice (JNumber (Num 0)) (JNumber (Num 13)))
     = Failure 400 ''Valid longitude and latitude coordinates are required''
   \<and> db_after (updateLocation db0 alice (JNumber (Num 0)) (JNumber (Num 13))) = db0
   \<and> (\<exists>m. reply (updateLocation db0 alice (JNumber (Num 77)) (JNumber (Num 13))) = Success 200 m)
   \<and> (\<exists>a b. JNumber (Num 77) = JNumber (Num a) \<and> JNumber (Num 13) = JNumber (Num b) \<and> a \<noteq> 0 \<and> b \<noteq> 0)"
proof -
  have s: "\<exists>m. reply (updateLocation db0 alice (JNumber (Num 77)) (JNumber (Num 13))) = Success 200 m"
    using sample_lookups(1) by (simp add: updateLocation_def Let_def)
  show ?thesis
    using updateLocation_zero_rejected [of "JNumber (Num 0)" "JNumber (Num 13)" db0 alice]
      updateLocation_zero_rejected [of "JNumber (Num 77)" "JNumber (Num 13)" db0 alice] s
    by blast
qed

section \<open>The status history\<close>

lemma list_all2_update_first:
  assumes "\<And>x. R x x" "\<And>x. P x \<Longrightarrow> R x (f x)"
  shows "list_all2 R xs (update_first P f xs)"
  using assms by (induction xs) (auto intro: list_all2_refl)

lemma history_step_refl: "history_step r x x"
  by (simp add: history_step_def)

lemma history_step_push:
  assumes "statusHistory y = statusHistory x @ [e]" "oid y = oid x" "push_time r = Some (timestamp e)"
  shows "history_step r x y"
  using assms
  by (auto simp: history_step_def clock_after_def sorted_append list_all_iff)

lemma orders_acceptOrder:
  "orders (db_after (acceptOrder Z d p i t1 t2)) =
     (case acceptOrder_load d p i of
        Inl r \<Rightarrow> orders d
      | Inr (a, x) \<Rightarrow>
          update_first (\<lambda>y. oid y = oid x)
            (\<lambda>y. y\<lparr>deliveryAgent := Ref (aid a), status := ''out_for_delivery'',
                    estimatedDeliveryTime := Some (setMinutesPlus30 Z t1),
                    statusHistory := statusHistory y @ [accept_entry p a t2]\<rparr>) (orders d))"
  by (simp add: acceptOrder_def acceptOrder_commit_def Let_def saveOrder_def split: sum.splits)

lemma orders_completeDelivery:
  "orders (db_after (completeDelivery d p i t1 t2)) =
     (case completeDelivery_load d p i of
        Inl r \<Rightarrow> orders d
      | Inr (a, x) \<Rightarrow>
          update_first (\<lambda>y. oid y = oid x)
            (\<lambda>y. y\<lparr>status := ''delivered'', actualDeliveryTime := Some t1,
                    statusHistory := statusHistory y @ [complete_entry a t2]\<rparr>) (orders d))"
  by (simp add: completeDelivery_def completeDelivery_commit_def Let_def saveOrder_def split: sum.splits)

lemma orders_rejectOrder: "orders (db_after (rejectOrder d p i)) = orders d"
  by (simp add: rejectOrder_def refuse_def split: option.splits)

lemma orders_updateLocation: "orders (db_after (updateLocation d p lon lat)) = orders d"
  by (simp add: updateLocation_def refuse_def Let_def split: option.splits)

lemma orders_updateAvailability: "orders (db_after (updateAvailability d p v)) = orders d"
  by (simp add: updateAvailability_def refuse_def split: option.splits jsval.splits)

lemma orders_verifyDeliveryAgent: "orders (db_after (verifyDeliveryAgent d i v)) = orders d"
  by (simp add: verifyDeliveryAgent_def refuse_def split: option.splits jsval.splits)

lemma orders_registerAsDeliveryAgent: "orders (db_after (registerAsDeliveryAgent d p vt vn fresh)) = orders d"
  by (simp add: registerAsDeliveryAgent_def refuse_def split: option.splits)

lemma history_steps_all: "list_all2 (history_step r) xs xs"
  by (simp add: list_all2_refl history_step_refl)

lemma history_steps_handle:
  "list_all2 (history_step r) (orders d) (orders (handle Z d r))"
proof (cases r)
  case (AcceptOrder p i t1 t2)
  show ?thesis
    unfolding AcceptOrder handle.simps orders_acceptOrder
    by (auto split: sum.splits intro!: history_steps_all list_all2_update_first history_step_refl
        history_step_push simp: accept_entry_def)
next
  case (CompleteDelivery p i t1 t2)
  show ?thesis
    unfolding CompleteDelivery handle.simps orders_completeDelivery
    by (auto split: sum.splits intro!: history_steps_all list_all2_update_first history_step_refl
        history_step_push simp: complete_entry_def)
qed (simp_all add: orders_rejectOrder orders_updateLocation orders_updateAvailability
      orders_verifyDeliveryAgent orders_registerAsDeliveryAgent history_steps_all)


lemma acceptOrder_load_Inl: "acceptOrder_load d p i = Inl r \<Longrightarrow> \<exists>c m. r = Failure c m"
  by (auto simp: acceptOrder_load_def split: option.splits if_splits)

lemma completeDelivery_load_Inl: "completeDelivery_load d p i = Inl r \<Longrightarrow> \<exists>c m. r = Failure c m"
  by (auto simp: completeDelivery_load_def split: option.splits if_splits)

lemma acceptOrder_pushes:
  assumes "reply (acceptOrder Z d p i t1 t2) = Success 200 m"
  shows "\<exists>x y e. findOrderById d i = Some x
           \<and> findOrderById (handle Z d (AcceptOrder p i t1 t2)) i = Some y
           \<and> statusHistory y = statusHistory x @ [e] \<and> timestamp e = t2"
proof -
  from assms obtain a x where ld: "acceptOrder_load d p i = Inr (a, x)"
    by (cases "acceptOrder_load d p i") (auto simp: acceptOrder_def dest: acceptOrder_load_Inl)
  then have fx: "findOrderById d i = Some x"
    by (auto simp: acceptOrder_load_def split: option.splits if_splits)
  then have xi: "oid x = i" by (rule findOrderById_oid)
  show ?thesis
    using fx xi
    by (simp add: acceptOrder_def ld acceptOrder_commit_def Let_def findOrderById_saveOrder
        accept_entry_def)
qed

lemma completeDelivery_pushes:
  assumes "reply (completeDelivery d p i t1 t2) = Success 200 m"
  shows "\<exists>x y e. findOrderById d i = Some x
           \<and> findOrderById (handle Z d (CompleteDelivery p i t1 t2)) i = Some y
           \<and> statusHistory y = statusHistory x @ [e] \<and> timestamp e = t2"
proof -
  from assms obtain a x where ld: "completeDelivery_load d p i = Inr (a, x)"
    by (cases "completeDelivery_load d p i") (auto simp: completeDelivery_def dest: completeDelivery_load_Inl)
  then have fx: "findOrderById d i = Some x"
    by (auto simp: completeDelivery_load_def split: option.splits if_splits)
  then have xi: "oid x = i" by (rule findOrderById_oid)
  show ?thesis
    using fx xi
    by (simp add: completeDelivery_def ld completeDelivery_commit_def Let_def findOrderById_saveOrder
        complete_entry_def)
qed

text \<open>
  Claim C3, as amended. Whatever the request, every order keeps its id and its status
  history only grows: the old history is a prefix of the new one and at most one entry is
  added, at the end. An \<open>acceptOrder\<close> or a \<open>completeDelivery\<close> that succeeds adds exactly one
  entry to its order, stamped with the clock reading. A history sorted by timestamp stays
  sorted provided that clock reading is not earlier than the timestamps already recorded.
\<close>

theorem statusHistory_append_only:
  "list_all2 (history_step r) (orders d) (orders (handle Z d r))
   \<and> ((\<exists>m. reply (acceptOrder Z d p i t1 t2) = Success 200 m) \<longrightarrow>
        (\<exists>x y e. findOrderById d i = Some x
           \<and> findOrderById (handle Z d (AcceptOrder p i t1 t2)) i = Some y
           \<and> statusHistory y = statusHistory x @ [e] \<and> timestamp e = t2))
   \<and> ((\<exists>m. reply (completeDelivery d p i t1 t2) = Success 200 m) \<longrightarrow>
        (\<exists>x y e. findOrderById d i = Some x
           \<and> findOrderById (handle Z d (CompleteDelivery p i t1 t2)) i = Some y
           \<and> statusHistory y = statusHistory x @ [e] \<and> timestamp e = t2))"
  using history_steps_handle acceptOrder_pushes completeDelivery_pushes by blast

theorem statusHistory_append_only_witness:
  "(\<exists>m. reply (acceptOrder utc db0 alice ''o1'' 5000 5001) = Success 200 m)
   \<and> (\<exists>x y e. findOrderById db0 ''o1'' = Some x
         \<and> findOrderById (handle utc db0 (AcceptOrder alice ''o1'' 5000 5001)) ''o1'' = Some y
         \<and> statusHistory y = statusHistory x @ [e] \<and> timestamp e = 5001)
   \<and> (\<exists>m. reply (completeDelivery db1 alice ''o2'' 7000 7001) = Success 200 m)
   \<and> (\<exists>x y e. findOrderById db1 ''o2'' = Some x
         \<and> findOrderById (handle utc db1 (CompleteDelivery alice ''o2'' 7000 7001)) ''o2'' = Some y
         \<and> statusHistory y = statusHistory x @ [e] \<and> timestamp e = 7001)
   \<and> sorted (map timestamp (statusHistory order1))
   \<and> clock_after (AcceptOrder alice ''o1'' 5000 5001) order1
   \<and> list_all2 (history_step (AcceptOrder alice ''o1'' 5000 5001)) (orders db0)
        (orders (handle utc db0 (AcceptOrder alice ''o1'' 5000 5001)))
   \<and> map (\<lambda>y. map timestamp (statusHistory y)) (orders (handle utc db0 (AcceptOrder alice ''o1'' 5000 5001)))
        = [[1000, 5001]]"
proof -
  have a: "reply (acceptOrder utc db0 alice ''o1'' 5000 5001) = Success 200 ''Order accepted for delivery''"
    by code_simp
  have c: "reply (completeDelivery db1 alice ''o2'' 7000 7001) = Success 200 ''Delivery completed successfully''"
    by code_simp
  have s: "sorted (map timestamp (statusHistory order1))"
    "clock_after (AcceptOrder alice ''o1'' 5000 5001) order1"
    "map (\<lambda>y. map timestamp (statusHistory y)) (orders (handle utc db0 (AcceptOrder alice ''o1'' 5000 5001)))
        = [[1000, 5001]]"
    by code_simp+
  show ?thesis
    using statusHistory_append_only [where r = "AcceptOrder alice ''o1'' 5000 5001" and Z = utc
        and d = db0 and p = alice and i = "''o1''" and ?t1.0 = 5000 and ?t2.0 = 5001]
      statusHistory_append_only [where r = "AcceptOrder alice ''o1'' 5000 5001" and Z = utc
        and d = db1 and p = alice and i = "''o2''" and ?t1.0 = 7000 and ?t2.0 = 7001]
      a c s
    by blast
qed

text \<open>
  The claim as stated promises sorted timestamps with no condition on the clock. An order
  whose history holds the timestamp 1000 and which is accepted when the clock reads 500
  ends with the timestamps 1000, 500.
\<close>

theorem statusHistory_sorted_counterexample:
  "sorted (map timestamp (statusHistory order1))
   \<and> orders db0 = [order1]
   \<and> map (\<lambda>y. map timestamp (statusHistory y)) (orders (handle utc db0 (AcceptOrder alice ''o1'' 500 500)))
       = [[1000, 500]]
   \<and> \<not> sorted [1000, 500 :: int]"
  by code_simp

section \<open>Two agents accepting one order\<close>

text \<open>
  Claim C1. Two verified, available agents accept the same confirmed, unassigned order.
  When both requests read the order before either saves it (schedule 0, 1, 0, 1), both
  are answered 200, the order ends with the second agent, and both agents hold the order
  among their active orders: the first assignment is overwritten. When the first request
  finishes before the second starts (schedule 0, 0, 1, 1), the second is refused with 400.
\<close>

theorem acceptOrder_race:
  "snd (run utc [0, 1, 0, 1] (db0, [Start alice ''o1'' 5000 5001, Start bob ''o1'' 5002 5003]))
     = [Done (Success 200 ''Order accepted for delivery''),
        Done (Success 200 ''Order accepted for delivery'')]
   \<and> map deliveryAgent (orders (fst (run utc [0, 1, 0, 1]
        (db0, [Start alice ''o1'' 5000 5001, Start bob ''o1'' 5002 5003])))) = [Ref ''a2'']
   \<and> map activeOrders (agents (fst (run utc [0, 1, 0, 1]
        (db0, [Start alice ''o1'' 5000 5001, Start bob ''o1'' 5002 5003])))) = [[''o1''], [''o1'']]
   \<and> snd (run utc [0, 0, 1, 1] (db0, [Start alice ''o1'' 5000 5001, Start bob ''o1'' 5002 5003]))
     = [Done (Success 200 ''Order accepted for delivery''),
        Done (Failure 400 ''This order has already been assigned to a delivery agent'')]"
  by code_simp

section \<open>The distance shown for a candidate\<close>

lemma digit_char_val: "k < 10 \<Longrightarrow> digit_val (digit_char k) = k"
proof -
  assume "k < 10"
  then have "k \<in> {0,1,2,3,4,5,6,7,8,9}" by auto
  then show ?thesis by (auto simp: digit_val_def digit_char_def)
qed

lemma nat_of_dec_snoc: "nat_of_dec (s @ [c]) = 10 * nat_of_dec s + digit_val c"
  by (simp add: nat_of_dec_def)

lemma dec_nat_reads_back: "nat_of_dec (dec_nat k) = k"
proof (induction k rule: dec_nat.induct)
  case (1 k)
  show ?case
  proof (cases "k < 10")
    case True
    then show ?thesis by (simp add: dec_nat.simps [of k] nat_of_dec_def digit_char_val)
  next
    case False
    with 1 show ?thesis
      by (simp add: dec_nat.simps [of k] nat_of_dec_snoc digit_char_val)
  qed
qed

lemma distance_text_examples:
  "distance_text (Num 1500) = ''1.50 km''"
  "distance_text (Num 1005) = ''1.00 km''"
  "distance_text (Num 1000) = ''1.00 km''"
  "distance_text (Num (19999 / 20)) = ''1000 m''"
  "distance_text (Num (6404 / 10)) = ''640 m''"
  by code_simp+

lemma pow2_pos: "0 < pow2 e"
  by (simp add: pow2_def)

lemma round_half_even_nonneg: "0 \<le> y \<Longrightarrow> 0 \<le> round_half_even y"
  by (simp add: round_half_even_def Let_def)

lemma double_round_nonneg: "0 \<le> x \<Longrightarrow> 0 \<le> double_round x"
proof -
  assume x: "0 \<le> x"
  let ?ulp = "pow2 (max (floor_log2 \<bar>x\<bar>) (- 1022) - 52)"
  have "0 \<le> \<bar>x\<bar> / ?ulp" using pow2_pos [of "max (floor_log2 \<bar>x\<bar>) (- 1022) - 52"] by simp
  then have "0 \<le> round_half_even (\<bar>x\<bar> / ?ulp)" by (rule round_half_even_nonneg)
  then have "0 \<le> sgn x * of_int (round_half_even (\<bar>x\<bar> / ?ulp)) * ?ulp"
    using x pow2_pos [of "max (floor_log2 \<bar>x\<bar>) (- 1022) - 52"] by (simp add: sgn_if)
  then show ?thesis by (simp add: double_round_def Let_def)
qed

text \<open>What the lines after the call would print for a distance \<open>r \<ge> 0\<close>.\<close>

lemma distance_text_number:
  assumes "0 \<le> r"
  shows "distance_text (Num r) =
     (if r < 1000 then dec_nat (nat \<lfloor>r + 1 / 2\<rfloor>) @ '' m''
      else fixed2 (double_round (r / 1000)) @ '' km'')"
proof -
  have "\<not> \<lfloor>r + 1 / 2\<rfloor> < 0" using assms by simp
  moreover have "\<not> double_round (r / 1000) < 0"
    using double_round_nonneg [of "r / 1000"] assms by simp
  ultimately show ?thesis
    by (simp add: distance_text_def dec_int_def)
qed

lemma order_distance_throws: "\<exists>err. order_distance latitude longitude x = Inl err"
  by (auto simp: order_distance_def calculateDistance_def split: sum.splits)

lemma annotate_unknown:
  "annotate latitude longitude x =
     \<lparr>lorder = x, dvalue = Num MAX_SAFE_INTEGER, dunit = ''meters'', dtext = ''Unknown'',
      derror = Some ''Invalid coordinates'', withinDeliveryRange = Some False\<rparr>"
  using order_distance_throws [of latitude longitude x] by (auto simp: annotate_def)

text \<open>
  Claim C7. Whatever the order and the agent's position, the annotation of a candidate
  has the value \<open>MAX_SAFE_INTEGER\<close>, the text \<open>Unknown\<close> and \<open>withinDeliveryRange = false\<close>: the
  call of \<open>calculateDistance\<close> throws, so the lines that print metres or kilometres and
  compare with 2000 are never reached. For the agent at (12.9716, 77.5946) all four
  candidates, among them the orders at (12.97, 77.6) and (12.97, 77.61), are listed so,
  in the order of the store. For the same agent with an active order the call outside the
  \<open>try\<close> makes the whole handler answer 500.
\<close>

theorem distance_never_computed:
  "dvalue (annotate latitude longitude x) = Num (2 ^ 53 - 1)
   \<and> dtext (annotate latitude longitude x) = ''Unknown''
   \<and> withinDeliveryRange (annotate latitude longitude x) = Some False
   \<and> pickup_numbers order1 = Some (388 / 5, 1297 / 100)
   \<and> pickup_numbers order_mid = Some (7761 / 100, 1297 / 100)
   \<and> map_sum id (\<lambda>n. map (\<lambda>c. (oid (lorder c), dvalue c, dtext c, withinDeliveryRange c)) (listing n))
        (getNearbyOrders sampleStore db2 alice True)
      = Inr [(''o3'', Num 9007199254740991, ''Unknown'', Some False),
             (''o4'', Num 9007199254740991, ''Unknown'', Some False),
             (''o5'', Num 9007199254740991, ''Unknown'', Some False),
             (''o1'', Num 9007199254740991, ''Unknown'', Some False)]
   \<and> map_sum id listing (getNearbyOrders sampleStore db3 alice True)
      = Inl (Failure 500 ''Error fetching nearby orders: calculateDistance is not defined'')"
proof -
  have "pickup_numbers order1 = Some (388 / 5, 1297 / 100)"
    "pickup_numbers order_mid = Some (7761 / 100, 1297 / 100)"
    "map_sum id (\<lambda>n. map (\<lambda>c. (oid (lorder c), dvalue c, dtext c, withinDeliveryRange c)) (listing n))
        (getNearbyOrders sampleStore db2 alice True)
      = Inr [(''o3'', Num 9007199254740991, ''Unknown'', Some False),
             (''o4'', Num 9007199254740991, ''Unknown'', Some False),
             (''o5'', Num 9007199254740991, ''Unknown'', Some False),
             (''o1'', Num 9007199254740991, ''Unknown'', Some False)]"
    "map_sum id listing (getNearbyOrders sampleStore db3 alice True)
      = Inl (Failure 500 ''Error fetching nearby orders: calculateDistance is not defined'')"
    by code_simp+
  then show ?thesis
    by (simp add: annotate_unknown MAX_SAFE_INTEGER_def)
qed

section \<open>The candidate listing\<close>










lemma lorder_annotate [simp]: "lorder (annotate latitude longitude x) = x"
  by (simp add: annotate_unknown)













section \<open>Fan-out of a change event\<close>

text \<open>
  Claim C8, as amended. A change event reaches at most three rooms. An event without a
  document reaches none. An \<open>update\<close>, \<open>insert\<close> or \<open>replace\<close> event with its document goes
  to the room \<open>order_<id>\<close>, to \<open>user_<user id>\<close>, and to \<open>agent_<agent id>\<close> exactly when
  the order has a delivery agent, in this order.
\<close>

theorem change_fanout:
  "length (topics c) \<le> 3
   \<and> (fullDocument c = None \<longrightarrow> on_change c = [])
   \<and> (\<forall>x. fullDocument c = Some x
          \<and> (operationType c = ''update'' \<or> operationType c = ''insert'' \<or> operationType c = ''replace'')
        \<longrightarrow> topics c = [''order_'' @ oid x, ''user_'' @ ouser x]
              @ (case deliveryAgent x of Ref a \<Rightarrow> [''agent_'' @ a] | _ \<Rightarrow> []))"
  by (auto simp: topics_def on_change_def split: option.splits ref.splits)

theorem change_fanout_witness:
  "fullDocument change_gone = None \<and> on_change change_gone = []
   \<and> fullDocument change_assigned = Some order_out \<and> operationType change_assigned = ''update''
   \<and> topics change_assigned = [''order_o2'', ''user_c1'', ''agent_a1'']
   \<and> fullDocument change_unassigned = Some order1 \<and> operationType change_unassigned = ''insert''
   \<and> topics change_unassigned = [''order_o1'', ''user_c1'']
   \<and> length (topics change_assigned) \<le> 3"
proof -
  have h: "fullDocument change_gone = None" "fullDocument change_assigned = Some order_out"
    "operationType change_assigned = ''update''" "fullDocument change_unassigned = Some order1"
    "operationType change_unassigned = ''insert''"
    by (simp_all add: change_gone_def change_assigned_def change_unassigned_def)
  have v: "oid order_out = ''o2''" "ouser order_out = ''c1''" "deliveryAgent order_out = Ref ''a1''"
    "oid order1 = ''o1''" "ouser order1 = ''c1''" "deliveryAgent order1 = Absent"
    by (simp_all add: order_out_def order1_def)
  show ?thesis
    using change_fanout [of change_gone] change_fanout [of change_assigned]
      change_fanout [of change_unassigned] h v
    by simp
qed

text \<open>
  The claim as stated names the rooms \<open>order:<id>\<close>, \<open>user:<id>\<close> and \<open>agent:<id>\<close> and has
  the first two reached always. The rooms of the code are written with an underscore, and
  an event whose document is gone reaches no room.
\<close>

theorem change_fanout_counterexample:
  "topics change_assigned = [''order_o2'', ''user_c1'', ''agent_a1'']
   \<and> ''order:o2'' \<notin> set (topics change_assigned)
   \<and> ''user:c1'' \<notin> set (topics change_assigned)
   \<and> ''agent:a1'' \<notin> set (topics change_assigned)
   \<and> oid order_out = ''o2'' \<and> ouser order_out = ''c1'' \<and> deliveryAgent order_out = Ref ''a1''
   \<and> topics change_gone = []"
  by code_simp

section \<open>Shutting the watcher down\<close>

text \<open>
  Claim C9. The watcher that \<open>createOrderChangeStream\<close> leaves on an open connection is
  shut down by the signal: \<open>closeChangeStreams\<close> runs while the connection is still open, so
  the handler of \<open>close\<close> sets a reconnect timer, exactly as it does for a stream that
  closes by itself; when the timer fires a new stream is opened. Only a connection that
  is already closed keeps the handler from reconnecting.
\<close>

theorem shutdown_reconnects:
  "createOrderChangeStream True
      \<lparr>orderChangeStream = None, readyState = 1, live = [], timers = 0, watches = 0\<rparr> = watching
   \<and> react watching ShutdownSignal =
       \<lparr>orderChangeStream = None, readyState = 1, live = [], timers = 1, watches = 1\<rparr>
   \<and> react (react watching ShutdownSignal) (TimerFires True) =
       \<lparr>orderChangeStream = Some 1, readyState = 1, live = [1], timers = 0, watches = 2\<rparr>
   \<and> react watching (StreamCloses 0) =
       \<lparr>orderChangeStream = Some 0, readyState = 1, live = [], timers = 1, watches = 1\<rparr>
   \<and> react (react watching ConnectionClosed) ShutdownSignal =
       \<lparr>orderChangeStream = None, readyState = 0, live = [], timers = 0, watches = 1\<rparr>"
  by (simp add: watching_def closeChangeStreams_def close_stream_def on_close_def
      createOrderChangeStream_def)

end
